theory Spec2Isabelle
  imports Complex_Main
begin

section \<open>JavaScript values\<close>

text \<open>
  The handlers and the speech service compute on parsed JSON: the body of a provider
  response, the \<open>{ data, error }\<close> reply of the row-store client, the object handed to
  \<open>res.json\<close>. A value is one of JavaScript's primitives, an array or an object. An
  object is the list of its properties; a lookup takes the first binding of a key.
  Numbers are never computed with by the code under study, only tested for being zero,
  so a number is a rational.
\<close>

datatype json =
    JUndefined
  | JNull
  | JBool bool
  | JNum rat
  | JStr string
  | JArr "json list"
  | JObj "(string \<times> json) list"

text \<open>Truthiness, as \<open>!x\<close>, \<open>x || y\<close> and \<open>if (x)\<close> read it.\<close>

fun truthy :: "json \<Rightarrow> bool" where
  "truthy JUndefined = False"
| "truthy JNull = False"
| "truthy (JBool b) = b"
| "truthy (JNum n) = (n \<noteq> 0)"
| "truthy (JStr s) = (s \<noteq> [])"
| "truthy (JArr xs) = True"
| "truthy (JObj kvs) = True"

definition falsy :: "json \<Rightarrow> bool" where
  "falsy v = (\<not> truthy v)"

definition js_or :: "json \<Rightarrow> json \<Rightarrow> json" where
  "js_or a b = (if truthy a then a else b)"

fun nullish :: "json \<Rightarrow> bool" where
  "nullish JUndefined = True"
| "nullish JNull = True"
| "nullish v = False"

text \<open>
  \<open>field k v\<close> is \<open>v?.k\<close> for a property name \<open>k\<close>: \<open>undefined\<close> on \<open>null\<close> and
  \<open>undefined\<close>, the property of an object, the \<open>length\<close> of an array or a string, and
  \<open>undefined\<close> for every other name the code reads (none of them is a property of
  \<open>Array.prototype\<close>, \<open>String.prototype\<close>, \<open>Number.prototype\<close> or
  \<open>Boolean.prototype\<close>).
\<close>

fun field :: "string \<Rightarrow> json \<Rightarrow> json" where
  "field k (JObj kvs) = (case map_of kvs k of None \<Rightarrow> JUndefined | Some v \<Rightarrow> v)"
| "field k (JArr xs) = (if k = ''length'' then JNum (of_nat (length xs)) else JUndefined)"
| "field k (JStr s) = (if k = ''length'' then JNum (of_nat (length s)) else JUndefined)"
| "field k v = JUndefined"

text \<open>\<open>at0 v\<close> is \<open>v?.[0]\<close>.\<close>

fun at0 :: "json \<Rightarrow> json" where
  "at0 (JArr xs) = (case xs of [] \<Rightarrow> JUndefined | x # _ \<Rightarrow> x)"
| "at0 (JStr s) = (case s of [] \<Rightarrow> JUndefined | c # _ \<Rightarrow> JStr [c])"
| "at0 (JObj kvs) = (case map_of kvs ''0'' of None \<Rightarrow> JUndefined | Some v \<Rightarrow> v)"
| "at0 v = JUndefined"

text \<open>
  What the code can throw: a \<open>TypeError\<close> from reading a property of \<open>null\<close> or
  \<open>undefined\<close> (the value and the property are kept), an \<open>Error\<close> made with
  \<open>new Error(message)\<close>, and the rejection of an HTTP call by the HTTP client, which
  carries a message and, when the server answered, the answer's status and body.
\<close>

record axios_error =
  err_message :: string
  err_response :: "(nat \<times> json) option"

datatype exn =
    TypeError json string
  | Error string
  | AxiosError axios_error

text \<open>\<open>v.k\<close>: it throws on \<open>null\<close> and \<open>undefined\<close>.\<close>

definition get_prop :: "string \<Rightarrow> json \<Rightarrow> exn + json" where
  "get_prop k v = (if nullish v then Inl (TypeError v k) else Inr (field k v))"

text \<open>
  \<open>res.json(body)\<close> sends \<open>JSON.stringify(body)\<close>: a property whose value is
  \<open>undefined\<close> is left out, an \<open>undefined\<close> array element is sent as \<open>null\<close>.
\<close>

fun res_json :: "json \<Rightarrow> json" where
  "res_json (JObj kvs) =
     JObj (map (\<lambda>(k, v). (k, res_json v)) (filter (\<lambda>(k, v). v \<noteq> JUndefined) kvs))"
| "res_json (JArr xs) = JArr (map (\<lambda>v. if v = JUndefined then JNull else res_json v) xs)"
| "res_json v = v"

record http_response =
  status :: nat
  body :: json

definition respond :: "nat \<Rightarrow> json \<Rightarrow> http_response" where
  "respond code payload = \<lparr>status = code, body = res_json payload\<rparr>"

section \<open>The record CRUD handler: \<open>GET /:id\<close>\<close>

text \<open>
  The row-store client answers every query with \<open>{ data, error }\<close>. The handler of
  \<open>GET /:id\<close> awaits \<open>from("transcriptions").select("*").eq("id", id).single()\<close> and
  then: \<open>if (error) throw error\<close>, caught by its own \<open>catch\<close>, which answers 500;
  \<open>if (!data)\<close> it answers 404; else it sends the row.
\<close>

record store_reply =
  reply_data :: json
  reply_error :: json

definition get_transcription_by_id :: "store_reply \<Rightarrow> http_response" where
  "get_transcription_by_id r =
     (if truthy (reply_error r)
      then respond 500 (JObj [(''error'', JStr ''Failed to fetch transcription'')])
      else if falsy (reply_data r)
      then respond 404 (JObj [(''error'', JStr ''Transcription not found'')])
      else respond 200 (reply_data r))"

section \<open>The transcription request handler: \<open>POST /transcribe/web\<close>\<close>

text \<open>
  \<open>req.file\<close> as the upload middleware leaves it (\<open>undefined\<close> when the form has no
  \<open>audio\<close> part), and the parts of the request the client controls besides the file.
\<close>

record upload_file =
  originalname :: string
  size_bytes :: nat
  mimetype :: string
  buffer :: string

record request =
  req_file :: "upload_file option"
  req_body :: json
  req_query :: json

text \<open>
  \<open>toLowerCase\<close> on the letters A to Z. (No character outside ASCII lower-cases to a
  letter of an allowed extension or to a dot.)
\<close>

definition lower_char :: "char \<Rightarrow> char" where
  "lower_char c =
     (case map_of (zip ''ABCDEFGHIJKLMNOPQRSTUVWXYZ'' ''abcdefghijklmnopqrstuvwxyz'') c of
        None \<Rightarrow> c
      | Some d \<Rightarrow> d)"

definition toLowerCase :: "string \<Rightarrow> string" where
  "toLowerCase s = map lower_char s"

text \<open>\<open>s.split(".")\<close>: never empty; \<open>"".split(".")\<close> is \<open>[""]\<close>.\<close>

fun split_dot :: "string \<Rightarrow> string list" where
  "split_dot [] = [[]]"
| "split_dot (c # cs) =
     (if c = CHR ''.'' then [] # split_dot cs
      else (case split_dot cs of [] \<Rightarrow> [[c]] | w # ws \<Rightarrow> (c # w) # ws))"

text \<open>\<open>name.toLowerCase().split(".").pop()\<close>.\<close>

definition fileExt :: "string \<Rightarrow> string" where
  "fileExt name = last (split_dot (toLowerCase name))"

definition allowedFormats :: "string list" where
  "allowedFormats = [''wav'', ''mp3'', ''m4a'', ''flac'', ''ogg'', ''webm'']"

definition contentTypes :: "(string \<times> string) list" where
  "contentTypes =
     [(''mp3'', ''audio/mpeg''), (''wav'', ''audio/wav''), (''m4a'', ''audio/mp4''),
      (''flac'', ''audio/flac''), (''ogg'', ''audio/ogg''), (''webm'', ''audio/webm'')]"

text \<open>
  \<open>getContentType\<close> is called after the extension check only, so the one difference
  between the lookup in a JavaScript object literal and in this table (the names
  inherited from \<open>Object.prototype\<close>) is never met.
\<close>

definition getContentType :: "string \<Rightarrow> string" where
  "getContentType filename =
     (let ext = last (split_dot (toLowerCase filename))
      in case map_of contentTypes ext of None \<Rightarrow> ''audio/mpeg'' | Some t \<Rightarrow> t)"

text \<open>An environment variable is unset or a string; the empty string is falsy.\<close>

fun env_truthy :: "string option \<Rightarrow> bool" where
  "env_truthy None = False"
| "env_truthy (Some s) = (s \<noteq> [])"

text \<open>The call \<open>axios.post(url, data, { headers, params })\<close> and what it settles to.\<close>

record provider_request =
  url :: string
  req_data :: string
  headers :: "(string \<times> string) list"
  params :: "(string \<times> json) list"

datatype axios_outcome = Resolved json | Rejected axios_error

text \<open>
  What a request meets outside the handler: the environment, the speech provider, the
  row store and the clock. \<open>now\<close> is the clock when the provider call is started,
  \<open>provider_ms\<close> the time until that call settles, \<open>read_gap_ms\<close> the time between two
  consecutive evaluations of \<open>Date.now()\<close>. The row-store client settles every query
  to a \<open>{ data, error }\<close> reply and does not throw.
\<close>

record world =
  DEEPGRAM_API_KEY :: "string option"
  DEEPGRAM_PROJECT_ID :: "string option"
  provider :: "provider_request \<Rightarrow> axios_outcome"
  store_insert :: "json \<Rightarrow> store_reply"
  now :: nat
  provider_ms :: nat
  read_gap_ms :: nat

datatype effect = ProviderCall provider_request | StoreInsert json

text \<open>\<open>error.message\<close> (a \<open>TypeError\<close>'s is the engine's).\<close>

fun message_of :: "exn \<Rightarrow> string" where
  "message_of (TypeError v k) =
     ''Cannot read properties of '' @ (if v = JNull then ''null'' else ''undefined'')
       @ '' (reading '' @ [CHR 0x27] @ k @ [CHR 0x27] @ '')''"
| "message_of (Error m) = m"
| "message_of (AxiosError e) = err_message e"

fun response_of :: "exn \<Rightarrow> (nat \<times> json) option" where
  "response_of (AxiosError e) = err_response e"
| "response_of e = None"

text \<open>The handler's \<open>catch\<close> block.\<close>

definition catch_block :: "exn \<Rightarrow> http_response" where
  "catch_block e =
     (let st = map_option fst (response_of e);
          details = (case response_of e of None \<Rightarrow> JUndefined | Some (_, d) \<Rightarrow> d);
          errorMessage =
            (if st = Some 401
             then JStr ''Invalid API key. Please check your Deepgram credentials.''
             else if st = Some 413
             then JStr ''Audio file too large. Please use a smaller file.''
             else if st = Some 400
             then JStr ''Invalid audio format. Please use MP3, WAV, M4A, or FLAC.''
             else if truthy (field ''error'' details) then field ''error'' details
             else JStr ''Transcription failed'')
      in respond 500
           (JObj [(''error'', errorMessage),
                  (''message'', JStr (message_of e)),
                  (''details'', details)]))"

text \<open>
  The three object literals of the success path: the \<open>transcription\<close> of the answer,
  the row given to \<open>insert\<close>, and the answer. \<open>t_received\<close> is the clock when the
  provider call has settled; \<open>startTime\<close> and \<open>processingTime\<close> are read from the
  clock one after the other, after that.
\<close>

definition transcription_of :: "json \<Rightarrow> json \<Rightarrow> json" where
  "transcription_of results bestAlternative =
     JObj [(''text'', field ''transcript'' bestAlternative),
           (''confidence'', field ''confidence'' bestAlternative),
           (''language'', JStr ''en-US''),
           (''duration'', js_or (field ''duration'' (field ''metadata'' results)) JNull)]"

definition row_of :: "world \<Rightarrow> upload_file \<Rightarrow> string \<Rightarrow> nat \<Rightarrow> json \<Rightarrow> json" where
  "row_of w f contentType t_received bestAlternative =
     (let startTime = t_received;  \<comment> \<open>\<open>const startTime = Date.now()\<close>, after the call\<close>
          processingTime = (t_received + read_gap_ms w) - startTime
            \<comment> \<open>\<open>Date.now() - startTime\<close>, on the next line\<close>
      in JObj [(''filename'', JStr (originalname f)),
               (''original_text'', field ''transcript'' bestAlternative),
               (''file_size'', JNum (of_nat (size_bytes f))),
               (''file_type'', JStr (if mimetype f \<noteq> [] then mimetype f else contentType)),
               (''processing_time_ms'', JNum (of_nat processingTime))])"

definition success_body :: "json \<Rightarrow> store_reply \<Rightarrow> json" where
  "success_body transcription saved =
     JObj [(''success'', JBool True),
           (''transcription'', transcription),
           (''service'', JStr ''deepgram''),
           (''saved'', JBool (falsy (reply_error saved))),
           (''transcription_id'', field ''id'' (reply_data saved))]"

text \<open>
  The \<open>try\<close> block from \<open>response.data.results\<close> on. Reading \<open>transcript\<close> from
  the first alternative throws when that alternative is \<open>null\<close> or \<open>undefined\<close>.
\<close>

definition after_response ::
  "world \<Rightarrow> upload_file \<Rightarrow> string \<Rightarrow> nat \<Rightarrow> json \<Rightarrow> exn + http_response \<times> effect list" where
  "after_response w f contentType t_received data =
     (case get_prop ''results'' data of
        Inl e \<Rightarrow> Inl e
      | Inr results \<Rightarrow>
          if falsy results \<or> falsy (field ''channels'' results)
               \<or> falsy (at0 (field ''channels'' results))
          then Inr (respond 500 (JObj [(''error'', JStr ''No transcription results received'')]), [])
          else
            let channel = at0 (field ''channels'' results);
                alternatives = field ''alternatives'' channel
            in if falsy alternatives \<or> field ''length'' alternatives = JNum 0
               then Inr (respond 500
                           (JObj [(''error'', JStr ''No transcription alternatives found'')]), [])
               else
                 let bestAlternative = at0 alternatives
                 in (case get_prop ''transcript'' bestAlternative of
                       Inl e \<Rightarrow> Inl e
                     | Inr _ \<Rightarrow>
                         let transcription = transcription_of results bestAlternative;
                             row = row_of w f contentType t_received bestAlternative;
                             saved = store_insert w row
                         in Inr (respond 200 (success_body transcription saved),
                                 [StoreInsert row])))"

text \<open>The request the handler sends to the provider for an upload \<open>f\<close>.\<close>

definition listen_call :: "world \<Rightarrow> upload_file \<Rightarrow> provider_request" where
  "listen_call w f =
     \<lparr>url = ''https://api.deepgram.com/v1/listen'',
      req_data = buffer f,
      headers =
        [(''Authorization'', ''Token '' @ the (DEEPGRAM_API_KEY w)),
         (''Content-Type'', getContentType (originalname f))]
        @ (if env_truthy (DEEPGRAM_PROJECT_ID w)
           then [(''X-Project-Id'', the (DEEPGRAM_PROJECT_ID w))] else []),
      params =
        [(''model'', JStr ''nova-2''), (''language'', JStr ''en-US''),
         (''smart_format'', JBool True), (''punctuate'', JBool True),
         (''utterances'', JBool True)]\<rparr>"

text \<open>The handler: its answer and, in order, the calls it made to the outside.\<close>

definition transcribe_web :: "world \<Rightarrow> request \<Rightarrow> http_response \<times> effect list" where
  "transcribe_web w req =
     (case req_file req of
        None \<Rightarrow> (respond 400 (JObj [(''error'', JStr ''No audio file provided'')]), [])
      | Some f \<Rightarrow>
          if size_bytes f > 1024 * 1024 * 1024
          then (respond 413 (JObj [(''error'', JStr ''File too large. Maximum size is 1GB.'')]), [])
          else if fileExt (originalname f) \<notin> set allowedFormats
          then (respond 400
                  (JObj [(''error'',
                     JStr ''Invalid audio format. Supported formats: MP3, WAV, M4A, FLAC, OGG, WEBM'')]),
                [])
          else if \<not> env_truthy (DEEPGRAM_API_KEY w)
          then (respond 500 (JObj [(''error'', JStr ''Deepgram API key not configured'')]), [])
          else
            (case provider w (listen_call w f) of
               Rejected e \<Rightarrow> (catch_block (AxiosError e), [ProviderCall (listen_call w f)])
             | Resolved data \<Rightarrow>
                 (case after_response w f (getContentType (originalname f))
                         (now w + provider_ms w) data of
                    Inl e \<Rightarrow> (catch_block e, [ProviderCall (listen_call w f)])
                  | Inr (r, effs) \<Rightarrow> (r, ProviderCall (listen_call w f) # effs))))"






fun provider_calls :: "effect list \<Rightarrow> provider_request list" where
  "provider_calls [] = []"
| "provider_calls (ProviderCall c # effs) = c # provider_calls effs"
| "provider_calls (StoreInsert row # effs) = provider_calls effs"

fun inserted_rows :: "effect list \<Rightarrow> json list" where
  "inserted_rows [] = []"
| "inserted_rows (ProviderCall c # effs) = inserted_rows effs"
| "inserted_rows (StoreInsert row # effs) = row # inserted_rows effs"

section \<open>The speech service: normalizers and adapters\<close>

text \<open>
  \<open>formatDeepgramResponse(data)\<close>. It throws on a response without results, channels
  or alternatives; it reads \<open>metadata\<close> from the top of the response.
\<close>

definition formatDeepgramResponse :: "json \<Rightarrow> exn + json" where
  "formatDeepgramResponse data =
     (case get_prop ''results'' data of
        Inl e \<Rightarrow> Inl e
      | Inr results \<Rightarrow>
          if falsy results \<or> falsy (field ''channels'' results)
               \<or> falsy (at0 (field ''channels'' results))
          then Inl (Error ''Invalid Deepgram response format'')
          else
            let channel = at0 (field ''channels'' results);
                alternatives = field ''alternatives'' channel
            in if falsy alternatives \<or> field ''length'' alternatives = JNum 0
               then Inl (Error ''No transcription alternatives found'')
               else
                 let bestAlternative = at0 alternatives
                 in (case get_prop ''transcript'' bestAlternative of
                       Inl e \<Rightarrow> Inl e
                     | Inr transcript \<Rightarrow>
                         Inr (JObj
                           [(''text'', transcript),
                            (''confidence'', field ''confidence'' bestAlternative),
                            (''words'', js_or (field ''words'' bestAlternative) (JArr [])),
                            (''language'',
                               js_or (field ''language'' (field ''metadata'' data)) (JStr ''en-US'')),
                            (''duration'',
                               js_or (field ''duration'' (field ''metadata'' data)) JNull),
                            (''utterances'',
                               js_or (field ''paragraphs'' (field ''paragraphs'' bestAlternative))
                                 (JArr [])),
                            (''speaker_labels'',
                               js_or (field ''speakers'' bestAlternative) JNull)])))"

text \<open>\<open>formatAssemblyAIResponse(data)\<close>.\<close>

definition formatAssemblyAIResponse :: "json \<Rightarrow> exn + json" where
  "formatAssemblyAIResponse data =
     (case get_prop ''text'' data of
        Inl e \<Rightarrow> Inl e
      | Inr text \<Rightarrow>
          Inr (JObj
            [(''text'', text),
             (''confidence'', field ''confidence'' data),
             (''words'', js_or (field ''words'' data) (JArr [])),
             (''language'', js_or (field ''language_code'' data) (JStr ''en'')),
             (''duration'', js_or (field ''audio_duration'' data) JNull),
             (''utterances'', js_or (field ''utterances'' data) (JArr [])),
             (''speaker_labels'', js_or (field ''speaker_labels'' data) JNull),
             (''chapters'', js_or (field ''chapters'' data) (JArr [])),
             (''entities'', js_or (field ''entities'' data) (JArr []))]))"

text \<open>
  An object literal \<open>{ ...base, ...options }\<close>: a property of \<open>options\<close> replaces the
  property of the same name where it stands, a new one goes to the end.
\<close>

fun obj_set :: "string \<Rightarrow> json \<Rightarrow> (string \<times> json) list \<Rightarrow> (string \<times> json) list" where
  "obj_set k v [] = [(k, v)]"
| "obj_set k v ((k', v') # kvs) = (if k' = k then (k, v) # kvs else (k', v') # obj_set k v kvs)"

definition spread :: "(string \<times> json) list \<Rightarrow> (string \<times> json) list \<Rightarrow> (string \<times> json) list" where
  "spread base options = fold (\<lambda>(k, v). obj_set k v) options base"

text \<open>
  \<open>transcribeWithDeepgram(audioBuffer, options)\<close>: the key check is outside the
  \<open>try\<close>; whatever the \<open>try\<close> block throws is thrown again as an \<open>Error\<close> with a
  prefixed message.
\<close>

definition transcribeWithDeepgram ::
  "string option \<Rightarrow> (provider_request \<Rightarrow> axios_outcome) \<Rightarrow> string \<Rightarrow> (string \<times> json) list
     \<Rightarrow> exn + json" where
  "transcribeWithDeepgram deepgramApiKey axios audioBuffer options =
     (if \<not> env_truthy deepgramApiKey then Inl (Error ''Deepgram API key not configured'')
      else
        let config =
              \<lparr>url = ''https://api.deepgram.com/v1/listen'',
               req_data = audioBuffer,
               headers =
                 [(''Authorization'', ''Token '' @ the deepgramApiKey),
                  (''Content-Type'', ''audio/wav'')],
               params =
                 spread
                   [(''model'', js_or (field ''model'' (JObj options)) (JStr ''nova-2'')),
                    (''language'', js_or (field ''language'' (JObj options)) (JStr ''en-US'')),
                    (''smart_format'', JBool True),
                    (''punctuate'', JBool True),
                    (''diarize'', js_or (field ''diarize'' (JObj options)) (JBool False)),
                    (''utterances'', JBool True)]
                   options\<rparr>
        in (case (case axios config of
                    Rejected e \<Rightarrow> Inl (AxiosError e)
                  | Resolved data \<Rightarrow> formatDeepgramResponse data) of
              Inl e \<Rightarrow> Inl (Error (''Deepgram transcription failed: '' @ message_of e))
            | Inr r \<Rightarrow> Inr r))"

text \<open>
  A template literal \<open>`${v}`\<close>. The text of a number is the runtime's, a parameter here.
\<close>

fun join_comma :: "string list \<Rightarrow> string" where
  "join_comma [] = []"
| "join_comma [s] = s"
| "join_comma (s # t # ss) = s @ '','' @ join_comma (t # ss)"

fun template :: "(rat \<Rightarrow> string) \<Rightarrow> json \<Rightarrow> string" where
  "template num JUndefined = ''undefined''"
| "template num JNull = ''null''"
| "template num (JBool b) = (if b then ''true'' else ''false'')"
| "template num (JNum r) = num r"
| "template num (JStr s) = s"
| "template num (JArr xs) =
     join_comma (map (\<lambda>v. if nullish v then [] else template num v) xs)"
| "template num (JObj kvs) = ''[object Object]''"

text \<open>
  The polling loop of \<open>transcribeWithAssemblyAI\<close>. \<open>poll k\<close> is what the status request
  number \<open>k\<close> (from 0) settles to; \<open>k\<close> counts the status requests made so far and
  \<open>waited\<close> the milliseconds slept. The loop has no bound: where no status is terminal
  and no request fails it does not return.
\<close>

partial_function (option) poll_loop ::
  "(rat \<Rightarrow> string) \<Rightarrow> (nat \<Rightarrow> axios_outcome) \<Rightarrow> nat \<Rightarrow> nat \<Rightarrow> ((exn + json) \<times> nat \<times> nat) option" where
  "poll_loop num poll k waited =
     (case poll k of
        Rejected e \<Rightarrow> Some (Inl (AxiosError e), Suc k, waited)
      | Resolved data \<Rightarrow>
          (case get_prop ''status'' data of
             Inl e \<Rightarrow> Some (Inl e, Suc k, waited)
           | Inr st \<Rightarrow>
               if st = JStr ''completed'' then Some (Inr data, Suc k, waited)
               else if st = JStr ''error''
               then Some (Inl (Error (''AssemblyAI transcription failed: ''
                                        @ template num (field ''error'' data))),
                          Suc k, waited)
               else poll_loop num poll (Suc k) (waited + 1000)))"





section \<open>A sample request\<close>

text \<open>
  The upload of \<open>sample.wav\<close> (10 KB), a provider that answers "hello world" with
  confidence 0.95 after 1.5 seconds, and a row store that accepts the insert (or, for
  \<open>store_down\<close>, refuses it).
\<close>

definition sample_file :: upload_file where
  "sample_file =
     \<lparr>originalname = ''sample.wav'', size_bytes = 10240, mimetype = ''audio/wav'',
      buffer = ''RIFF''\<rparr>"

definition sample_request :: request where
  "sample_request = \<lparr>req_file = Some sample_file, req_body = JObj [], req_query = JObj []\<rparr>"

definition sample_data :: json where
  "sample_data =
     JObj [(''metadata'', JObj [(''duration'', JNum (5 / 2))]),
           (''results'',
              JObj [(''channels'',
                 JArr [JObj [(''alternatives'',
                    JArr [JObj [(''transcript'', JStr ''hello world''),
                                (''confidence'', JNum (19 / 20))]])]])])]"

definition store_ok :: "json \<Rightarrow> store_reply" where
  "store_ok row =
     \<lparr>reply_data =
        JObj [(''id'', JStr ''t-1''),
              (''filename'', field ''filename'' row),
              (''original_text'', field ''original_text'' row)],
      reply_error = JNull\<rparr>"

definition store_down :: "json \<Rightarrow> store_reply" where
  "store_down row =
     \<lparr>reply_data = JNull, reply_error = JObj [(''message'', JStr ''connection refused'')]\<rparr>"

definition sample_world :: world where
  "sample_world =
     \<lparr>DEEPGRAM_API_KEY = Some ''dg-key'', DEEPGRAM_PROJECT_ID = None,
      provider = (\<lambda>c. Resolved sample_data), store_insert = store_ok,
      now = 5000, provider_ms = 1500, read_gap_ms = 0\<rparr>"



section \<open>Notions the properties are stated with\<close>


text \<open>
  The first alternative of the first channel of a provider response:
  \<open>data.results.channels[0].alternatives[0]\<close>.
\<close>

definition best_of :: "json \<Rightarrow> json" where
  "best_of data =
     at0 (field ''alternatives'' (at0 (field ''channels'' (field ''results'' data))))"

text \<open>
  A status request is pending when it is answered and the job's status is neither
  \<open>completed\<close> nor \<open>error\<close>.
\<close>

definition pending :: "axios_outcome \<Rightarrow> bool" where
  "pending out =
     (case out of
        Rejected e \<Rightarrow> False
      | Resolved d \<Rightarrow>
          \<not> nullish d \<and> field ''status'' d \<noteq> JStr ''completed''
            \<and> field ''status'' d \<noteq> JStr ''error'')"

section \<open>Properties\<close>

subsection \<open>The extension of a file name\<close>

lemma split_dot_nodot: "CHR ''.'' \<notin> set s \<Longrightarrow> split_dot s = [s]"
  by (induction s) auto

lemma lower_char_dot: "lower_char c = CHR ''.'' \<longleftrightarrow> c = CHR ''.''"
  by (simp add: lower_char_def)

lemma split_dot_ne: "split_dot s \<noteq> []"
  by (induction s) (auto split: list.splits)

lemma split_dot_dot: "CHR ''.'' \<in> set s \<Longrightarrow> \<exists>w v ws. split_dot s = w # v # ws"
proof (induction s)
  case Nil
  then show ?case by simp
next
  case (Cons c cs)
  obtain u us where u: "split_dot cs = u # us"
    using split_dot_ne[of cs] by (cases "split_dot cs") auto
  show ?case
  proof (cases "c = CHR ''.''")
    case True
    then show ?thesis using u by simp
  next
    case False
    with Cons.prems have "CHR ''.'' \<in> set cs" by simp
    with Cons.IH obtain w v ws where "split_dot cs = w # v # ws" by blast
    with False show ?thesis by simp
  qed
qed

lemma last_split_dot: "last (split_dot s) = rev (takeWhile (\<lambda>c. c \<noteq> CHR ''.'') (rev s))"
proof (induction s)
  case Nil
  then show ?case by simp
next
  case (Cons c cs)
  show ?case
  proof (cases "CHR ''.'' \<in> set cs")
    case dot: True
    then obtain w v ws where w: "split_dot cs = w # v # ws"
      using split_dot_dot by blast
    have "last (split_dot (c # cs)) = last (split_dot cs)"
      using w by simp
    moreover have "takeWhile (\<lambda>c. c \<noteq> CHR ''.'') (rev cs @ [c])
        = takeWhile (\<lambda>c. c \<noteq> CHR ''.'') (rev cs)"
      using dot by (intro takeWhile_append1[of "CHR ''.''"]) auto
    ultimately show ?thesis using Cons.IH by simp
  next
    case nodot: False
    then have cs: "split_dot cs = [cs]" by (rule split_dot_nodot)
    have tw: "takeWhile (\<lambda>c. c \<noteq> CHR ''.'') (rev cs @ [c])
        = rev cs @ takeWhile (\<lambda>c. c \<noteq> CHR ''.'') [c]"
      using nodot by (intro takeWhile_append2) auto
    show ?thesis using cs tw by simp
  qed
qed

lemma after_response_calls:
  "after_response w f ct t d = Inr (r, effs) \<Longrightarrow> provider_calls effs = []"
  by (auto simp: after_response_def Let_def split: sum.splits if_splits)

text \<open>The extension the handler tests is the lower-cased text after the last dot.\<close>

lemma fileExt_suffix:
  "fileExt name = rev (takeWhile (\<lambda>c. c \<noteq> CHR ''.'') (rev (toLowerCase name)))"
  by (simp add: fileExt_def last_split_dot)

subsection \<open>Values\<close>


lemma res_json_undefined: "res_json v = JUndefined \<longleftrightarrow> v = JUndefined"
  by (cases v) simp_all

text \<open>
  Sending an object whose property names are distinct keeps each property that is not
  \<open>undefined\<close>, itself as sent.
\<close>

lemma map_of_res_json_None:
  "k \<notin> fst ` set kvs \<Longrightarrow>
     map_of (map (\<lambda>(k, v). (k, res_json v)) (filter (\<lambda>(k, v). v \<noteq> JUndefined) kvs)) k = None"
  by (induction kvs) auto

lemma field_res_json:
  "distinct (map fst kvs) \<Longrightarrow> field k (res_json (JObj kvs)) = res_json (field k (JObj kvs))"
proof (induction kvs)
  case Nil
  then show ?case by simp
next
  case (Cons kv kvs)
  obtain k' v where kv: "kv = (k', v)" by (cases kv)
  have notin: "k' \<notin> fst ` set kvs" and d: "distinct (map fst kvs)"
    using Cons.prems kv by auto
  have IH: "field k (res_json (JObj kvs)) = res_json (field k (JObj kvs))"
    using Cons.IH d by simp
  show ?case
  proof (cases "k = k'")
    case True
    then show ?thesis
      using kv notin map_of_res_json_None[of k' kvs] by (simp add: res_json_undefined)
  next
    case False
    then show ?thesis using kv IH by simp
  qed
qed

lemma truthy_field: "truthy (field k v) \<Longrightarrow> truthy v \<and> \<not> nullish v"
  by (cases v) (auto split: if_splits)

lemma truthy_at0: "truthy (at0 v) \<Longrightarrow> truthy v \<and> \<not> nullish v"
  by (cases v) (auto split: list.splits)

subsection \<open>The record CRUD handler\<close>

lemma get_by_id_404_iff:
  "status (get_transcription_by_id r) = 404
     \<longleftrightarrow> \<not> truthy (reply_error r) \<and> \<not> truthy (reply_data r)"
  by (simp add: get_transcription_by_id_def respond_def falsy_def)

text \<open>
  C2. The claim: when no record with the requested id exists, \<open>GET /:id\<close> answers 404
  with an error body, not 500. For a query ending in \<open>.single()\<close> the row-store client
  reports "no row" as an error object (code \<open>PGRST116\<close>) with \<open>data: null\<close>. On
  that reply the handler throws before it reaches its own 404 branch and answers 500.
\<close>

theorem get_by_id_absent_row_is_500:
  "get_transcription_by_id
     \<lparr>reply_data = JNull,
      reply_error = JObj [(''code'', JStr ''PGRST116''),
                          (''details'', JStr ''The result contains 0 rows''),
                          (''hint'', JNull),
                          (''message'', JStr ''JSON object requested, multiple (or no) rows returned'')]\<rparr>
   = \<lparr>status = 500, body = JObj [(''error'', JStr ''Failed to fetch transcription'')]\<rparr>"
  by (simp add: get_transcription_by_id_def respond_def falsy_def)

subsection \<open>The transcription request handler\<close>

lemma toLowerCase_no_dot: "CHR ''.'' \<notin> set s \<Longrightarrow> CHR ''.'' \<notin> set (toLowerCase s)"
proof
  assume nodot: "CHR ''.'' \<notin> set s" and "CHR ''.'' \<in> set (toLowerCase s)"
  then obtain c where "c \<in> set s" and "lower_char c = CHR ''.''"
    by (auto simp: toLowerCase_def)
  then show False using nodot by (simp add: lower_char_dot)
qed

lemma catch_block_status: "status (catch_block e) = 500"
  by (simp add: catch_block_def respond_def Let_def)

text \<open>What the \<open>try\<close> block can end with, if it does not throw.\<close>

lemma after_response_Inr:
  assumes "after_response w f ct t d = Inr (r, effs)"
  shows "(r = respond 500 (JObj [(''error'', JStr ''No transcription results received'')])
            \<and> effs = [])
     \<or> (r = respond 500 (JObj [(''error'', JStr ''No transcription alternatives found'')])
            \<and> effs = [])
     \<or> (r = respond 200 (success_body (transcription_of (field ''results'' d) (best_of d))
                               (store_insert w (row_of w f ct t (best_of d))))
          \<and> effs = [StoreInsert (row_of w f ct t (best_of d))])"
  using assms unfolding after_response_def best_of_def Let_def get_prop_def
  by (auto split: sum.splits if_splits)

lemma after_response_status:
  "after_response w f ct t d = Inr (r, effs) \<Longrightarrow> status r = 500 \<or> status r = 200"
  by (drule after_response_Inr) (auto simp: respond_def)

lemma after_response_200:
  assumes "after_response w f ct t d = Inr (r, effs)" and "status r = 200"
  shows "field ''language'' (field ''transcription'' (body r)) = JStr ''en-US''"
proof -
  have "r = respond 200 (success_body (transcription_of (field ''results'' d) (best_of d))
                        (store_insert w (row_of w f ct t (best_of d))))"
    using after_response_Inr[OF assms(1)] assms(2) by (auto simp: respond_def)
  then show ?thesis
    by (simp add: respond_def success_body_def transcription_of_def field_res_json
        del: res_json.simps(1))
qed



lemma transcribe_web_calls:
  "provider_calls (snd (transcribe_web w req)) = []
   \<or> (\<exists>f. req_file req = Some f
          \<and> provider_calls (snd (transcribe_web w req)) = [listen_call w f])"
  by (auto simp: transcribe_web_def after_response_calls
      split: option.splits axios_outcome.splits sum.splits)

lemma passed_not_400:
  assumes "req_file req = Some f" and "size_bytes f \<le> 2 ^ 30"
    and "fileExt (originalname f) \<in> set allowedFormats"
  shows "status (fst (transcribe_web w req)) \<noteq> 400"
  using assms
  by (auto simp: transcribe_web_def respond_def catch_block_status
      split: axios_outcome.splits sum.splits dest: after_response_status)

text \<open>The sample request passes the four checks, whatever the provider and the store do.\<close>

lemma sample_accepted:
  "req_file sample_request = Some sample_file"
  "size_bytes sample_file \<le> 2 ^ 30"
  "fileExt (originalname sample_file) \<in> set allowedFormats"
  "env_truthy (DEEPGRAM_API_KEY sample_world)"
  by (simp_all add: sample_request_def sample_file_def sample_world_def
      fileExt_def toLowerCase_def lower_char_def allowedFormats_def)

lemmas sample_eval =
  transcribe_web_def after_response_def transcription_of_def row_of_def success_body_def
  get_prop_def falsy_def js_or_def respond_def
  fileExt_def toLowerCase_def lower_char_def allowedFormats_def
  sample_world_def sample_request_def sample_file_def sample_data_def store_ok_def store_down_def

lemma sample_effects:
  "req_file req = Some sample_file \<Longrightarrow>
   snd (transcribe_web sample_world req)
     = [ProviderCall (listen_call sample_world sample_file),
        StoreInsert (JObj [(''filename'', JStr ''sample.wav''),
                           (''original_text'', JStr ''hello world''),
                           (''file_size'', JNum 10240),
                           (''file_type'', JStr ''audio/wav''),
                           (''processing_time_ms'', JNum 0)])]"
  by (simp add: sample_eval)

lemma sample_status:
  "req_file req = Some sample_file \<Longrightarrow> status (fst (transcribe_web sample_world req)) = 200"
  by (simp add: sample_eval)


lemma processing_time_is_read_gap:
  "StoreInsert row \<in> set (snd (transcribe_web w req))
     \<Longrightarrow> field ''processing_time_ms'' row = JNum (of_nat (read_gap_ms w))"
  by (auto simp: transcribe_web_def row_of_def Let_def
      split: option.splits if_splits axios_outcome.splits sum.splits
      dest!: after_response_Inr)

text \<open>
  C1. The claim: the persisted record has \<open>processing_time_ms\<close> equal to the elapsed
  time of the provider call. The handler reads the clock twice in a row after the
  provider call has settled (\<open>startTime = Date.now()\<close>, then
  \<open>Date.now() - startTime\<close>), so the row carries the time between the two reads. On the
  sample request the provider call takes 1500 ms and the row carries 0.
\<close>

theorem processing_time_not_provider_time:
  "provider_ms sample_world = 1500
   \<and> map (field ''processing_time_ms'')
         (inserted_rows (snd (transcribe_web sample_world sample_request))) = [JNum 0]"
  by (simp add: transcribe_web_def fileExt_def toLowerCase_def lower_char_def allowedFormats_def
      after_response_def transcription_of_def row_of_def success_body_def
      get_prop_def falsy_def js_or_def respond_def
      sample_world_def sample_request_def sample_file_def sample_data_def store_ok_def)




text \<open>
  C9. A file name without a dot is, lower-cased, its own extension: the format check
  accepts a file named \<open>wav\<close> (or \<open>WAV\<close>, \<open>mp3\<close>, ...) and rejects every other
  dot-free name with the 400 of the format check; for an accepted one the content type
  is the entry of the table under the whole lower-cased name.
\<close>

theorem dot_free_name:
  assumes "CHR ''.'' \<notin> set (originalname f)"
    and "req_file req = Some f" and "size_bytes f \<le> 2 ^ 30"
  shows "fileExt (originalname f) = toLowerCase (originalname f)
    \<and> (toLowerCase (originalname f) \<in> set allowedFormats
          \<longrightarrow> status (fst (transcribe_web w req)) \<noteq> 400
            \<and> map_of contentTypes (toLowerCase (originalname f))
                = Some (getContentType (originalname f)))
    \<and> (toLowerCase (originalname f) \<notin> set allowedFormats
          \<longrightarrow> transcribe_web w req
             = (\<lparr>status = 400,
                 body = JObj [(''error'',
                   JStr ''Invalid audio format. Supported formats: MP3, WAV, M4A, FLAC, OGG, WEBM'')]\<rparr>,
                []))"
proof -
  have sp: "split_dot (toLowerCase (originalname f)) = [toLowerCase (originalname f)]"
    using assms(1) by (intro split_dot_nodot toLowerCase_no_dot)
  then have ext: "fileExt (originalname f) = toLowerCase (originalname f)"
    by (simp add: fileExt_def)
  have ct: "map_of contentTypes (toLowerCase (originalname f))
                = Some (getContentType (originalname f))"
    if "toLowerCase (originalname f) \<in> set allowedFormats"
    using that sp by (auto simp: getContentType_def allowedFormats_def contentTypes_def)
  have rej: "transcribe_web w req
             = (\<lparr>status = 400,
                 body = JObj [(''error'',
                   JStr ''Invalid audio format. Supported formats: MP3, WAV, M4A, FLAC, OGG, WEBM'')]\<rparr>,
                [])" if "toLowerCase (originalname f) \<notin> set allowedFormats"
    using that assms(2,3) ext by (simp add: transcribe_web_def respond_def)
  have acc: "status (fst (transcribe_web w req)) \<noteq> 400"
    if "toLowerCase (originalname f) \<in> set allowedFormats"
    using that assms(2,3) ext passed_not_400[of req f w] by simp
  show ?thesis using ext ct rej acc by blast
qed

theorem dot_free_name_witness:
  "status (fst (transcribe_web sample_world
       (sample_request\<lparr>req_file := Some (sample_file\<lparr>originalname := ''wav''\<rparr>)\<rparr>))) \<noteq> 400
   \<and> fileExt ''WAV'' = ''wav''
   \<and> getContentType ''WAV'' = ''audio/wav''
   \<and> transcribe_web sample_world
       (sample_request\<lparr>req_file := Some (sample_file\<lparr>originalname := ''README''\<rparr>)\<rparr>)
      = (\<lparr>status = 400,
          body = JObj [(''error'',
            JStr ''Invalid audio format. Supported formats: MP3, WAV, M4A, FLAC, OGG, WEBM'')]\<rparr>,
         [])"
proof -
  let ?f1 = "sample_file\<lparr>originalname := ''wav''\<rparr>"
  let ?f2 = "sample_file\<lparr>originalname := ''WAV''\<rparr>"
  let ?f3 = "sample_file\<lparr>originalname := ''README''\<rparr>"
  have d1: "CHR ''.'' \<notin> set (originalname ?f1)"
    and d2: "CHR ''.'' \<notin> set (originalname ?f2)"
    and d3: "CHR ''.'' \<notin> set (originalname ?f3)"
    by simp_all
  have r1: "req_file (sample_request\<lparr>req_file := Some ?f1\<rparr>) = Some ?f1"
    and r2: "req_file (sample_request\<lparr>req_file := Some ?f2\<rparr>) = Some ?f2"
    and r3: "req_file (sample_request\<lparr>req_file := Some ?f3\<rparr>) = Some ?f3"
    by simp_all
  have s1: "size_bytes ?f1 \<le> 2 ^ 30" and s2: "size_bytes ?f2 \<le> 2 ^ 30"
    and s3: "size_bytes ?f3 \<le> 2 ^ 30"
    by (simp_all add: sample_file_def)
  have l1: "toLowerCase (originalname ?f1) \<in> set allowedFormats"
    and l2: "toLowerCase (originalname ?f2) = ''wav''"
    and l3: "toLowerCase (originalname ?f3) \<notin> set allowedFormats"
    by (simp_all add: toLowerCase_def lower_char_def allowedFormats_def)
  have m: "map_of contentTypes ''wav'' = Some ''audio/wav''"
    by (simp add: contentTypes_def)
  have l2': "toLowerCase (originalname ?f2) \<in> set allowedFormats"
    by (simp add: toLowerCase_def lower_char_def allowedFormats_def)
  note w1 = dot_free_name [OF d1 r1 s1, of sample_world, THEN conjunct2, THEN conjunct1,
      rule_format, OF l1, THEN conjunct1]
  note w2 = dot_free_name [OF d2 r2 s2, of sample_world, THEN conjunct1]
  note w3 = dot_free_name [OF d2 r2 s2, of sample_world, THEN conjunct2, THEN conjunct1,
      rule_format, OF l2', THEN conjunct2]
  note w4 = dot_free_name [OF d3 r3 s3, of sample_world, THEN conjunct2, THEN conjunct2,
      rule_format, OF l3]
  have e2: "fileExt ''WAV'' = ''wav''" using w2 l2 by simp
  have g2: "getContentType ''WAV'' = ''audio/wav''" using w3 l2 m by simp
  show ?thesis using w1 e2 g2 w4 by blast
qed

text \<open>
  C10. Whatever the request carries (its file, body and query), every provider request
  the handler makes has \<open>model = "nova-2"\<close> and \<open>language = "en-US"\<close>, and the
  transcription of every 200 answer has \<open>language = "en-US"\<close>.
\<close>

theorem fixed_options:
  "(\<forall>c \<in> set (provider_calls (snd (transcribe_web w req))).
       map_of (params c) ''model'' = Some (JStr ''nova-2'')
     \<and> map_of (params c) ''language'' = Some (JStr ''en-US''))
   \<and> (status (fst (transcribe_web w req)) = 200 \<longrightarrow>
        field ''language'' (field ''transcription'' (body (fst (transcribe_web w req))))
          = JStr ''en-US'')"
proof
  show "\<forall>c \<in> set (provider_calls (snd (transcribe_web w req))).
       map_of (params c) ''model'' = Some (JStr ''nova-2'')
     \<and> map_of (params c) ''language'' = Some (JStr ''en-US'')"
    using transcribe_web_calls[of w req] by (auto simp: listen_call_def)
  show "status (fst (transcribe_web w req)) = 200 \<longrightarrow>
        field ''language'' (field ''transcription'' (body (fst (transcribe_web w req))))
          = JStr ''en-US''"
    by (auto simp: transcribe_web_def respond_def catch_block_status after_response_200
      split: option.splits axios_outcome.splits sum.splits)
qed

text \<open>A client that asks for another model and language gets the fixed ones.\<close>

theorem fixed_options_witness:
  "provider_calls (snd (transcribe_web sample_world
       (sample_request\<lparr>req_body := JObj [(''model'', JStr ''base''), (''language'', JStr ''fr-FR'')],
                       req_query := JObj [(''language'', JStr ''fr-FR'')]\<rparr>)))
     = [listen_call sample_world sample_file]
   \<and> map_of (params (listen_call sample_world sample_file)) ''model'' = Some (JStr ''nova-2'')
   \<and> map_of (params (listen_call sample_world sample_file)) ''language'' = Some (JStr ''en-US'')
   \<and> field ''language'' (field ''transcription'' (body (fst (transcribe_web sample_world
       (sample_request\<lparr>req_body := JObj [(''model'', JStr ''base''), (''language'', JStr ''fr-FR'')],
                       req_query := JObj [(''language'', JStr ''fr-FR'')]\<rparr>)))))
     = JStr ''en-US''"
  using
    fixed_options [of sample_world
      "sample_request\<lparr>req_body := JObj [(''model'', JStr ''base''), (''language'', JStr ''fr-FR'')],
                      req_query := JObj [(''language'', JStr ''fr-FR'')]\<rparr>"]
  by (simp add: sample_effects sample_status sample_accepted(1))

text \<open>
  C8, as claimed: when the provider call fails, the handler answers 500 with fixed
  texts for the upstream statuses 401, 413 and 400, and any other failure passes the
  upstream error message through. The last part fails where the upstream body has no
  \<open>error\<close> property (the provider's message is then elsewhere in the body) and where
  there is no upstream answer at all: the handler's \<open>error\<close> is its own
  "Transcription failed".
\<close>

theorem upstream_failure_counterexample:
  "field ''error'' (body (fst (transcribe_web
       (sample_world\<lparr>provider := (\<lambda>c. Rejected
          \<lparr>err_message = ''Request failed with status code 503'',
           err_response = Some (503, JObj [(''err_code'', JStr ''UNAVAILABLE''),
                                           (''err_msg'', JStr ''Service unavailable'')])\<rparr>)\<rparr>)
       sample_request)))
     = JStr ''Transcription failed''
   \<and> field ''error'' (body (fst (transcribe_web
       (sample_world\<lparr>provider := (\<lambda>c. Rejected
          \<lparr>err_message = ''connect ECONNREFUSED'', err_response = None\<rparr>)\<rparr>)
       sample_request)))
     = JStr ''Transcription failed''"
  by (simp add: transcribe_web_def catch_block_def respond_def
      fileExt_def toLowerCase_def lower_char_def allowedFormats_def
      sample_world_def sample_request_def sample_file_def)

text \<open>
  C8, amended. When the provider call fails, the handler answers 500 and the \<open>error\<close>
  of the answer follows the upstream status: fixed texts for 401 (credentials), 413
  (file too large) and 400 (audio format); for any other failure the \<open>error\<close>
  property of the upstream body, passed through, when the body has one that is truthy,
  and "Transcription failed" when it has none or there is no upstream answer.
\<close>

theorem upstream_failure_message:
  assumes "req_file req = Some f" and "size_bytes f \<le> 2 ^ 30"
    and "fileExt (originalname f) \<in> set allowedFormats"
    and "env_truthy (DEEPGRAM_API_KEY w)"
    and "provider w (listen_call w f) = Rejected e"
  shows "status (fst (transcribe_web w req)) = 500
     \<and> snd (transcribe_web w req) = [ProviderCall (listen_call w f)]
     \<and> field ''error'' (body (fst (transcribe_web w req)))
         = (case err_response e of
              None \<Rightarrow> JStr ''Transcription failed''
            | Some (code, d) \<Rightarrow>
                if code = 401 then JStr ''Invalid API key. Please check your Deepgram credentials.''
                else if code = 413 then JStr ''Audio file too large. Please use a smaller file.''
                else if code = 400
                then JStr ''Invalid audio format. Please use MP3, WAV, M4A, or FLAC.''
                else if truthy (field ''error'' d) then res_json (field ''error'' d)
                else JStr ''Transcription failed'')"
  using assms
  by (auto simp: transcribe_web_def catch_block_def respond_def Let_def res_json_undefined
      split: option.splits)

theorem upstream_failure_message_witness:
  "field ''error'' (body (fst (transcribe_web
       (sample_world\<lparr>provider := (\<lambda>c. Rejected
          \<lparr>err_message = ''Request failed with status code 401'',
           err_response = Some (401, JObj [(''err_code'', JStr ''INVALID_AUTH'')])\<rparr>)\<rparr>)
       sample_request)))
     = JStr ''Invalid API key. Please check your Deepgram credentials.''
   \<and> status (fst (transcribe_web
       (sample_world\<lparr>provider := (\<lambda>c. Rejected
          \<lparr>err_message = ''Request failed with status code 503'',
           err_response = Some (503, JObj [(''error'', JStr ''Service Unavailable'')])\<rparr>)\<rparr>)
       sample_request)) = 500
   \<and> field ''error'' (body (fst (transcribe_web
       (sample_world\<lparr>provider := (\<lambda>c. Rejected
          \<lparr>err_message = ''Request failed with status code 503'',
           err_response = Some (503, JObj [(''error'', JStr ''Service Unavailable'')])\<rparr>)\<rparr>)
       sample_request)))
     = JStr ''Service Unavailable''"
proof -
  let ?e1 = "\<lparr>err_message = ''Request failed with status code 401'',
              err_response = Some (401, JObj [(''err_code'', JStr ''INVALID_AUTH'')])\<rparr>"
  let ?e2 = "\<lparr>err_message = ''Request failed with status code 503'',
              err_response = Some (503, JObj [(''error'', JStr ''Service Unavailable'')])\<rparr>"
  let ?w1 = "sample_world\<lparr>provider := (\<lambda>c. Rejected ?e1)\<rparr>"
  let ?w2 = "sample_world\<lparr>provider := (\<lambda>c. Rejected ?e2)\<rparr>"
  have k1: "env_truthy (DEEPGRAM_API_KEY ?w1)" and k2: "env_truthy (DEEPGRAM_API_KEY ?w2)"
    using sample_accepted(4) by simp_all
  have p1: "provider ?w1 (listen_call ?w1 sample_file) = Rejected ?e1"
    and p2: "provider ?w2 (listen_call ?w2 sample_file) = Rejected ?e2"
    by simp_all
  show ?thesis
    using upstream_failure_message [OF sample_accepted(1-3) k1 p1]
      upstream_failure_message [OF sample_accepted(1-3) k2 p2]
    by simp
qed

text \<open>
  C5. A provider response that has a first channel whose alternatives list is missing
  or empty is answered in a handled way: the handler sends 500 with the error
  "No transcription alternatives found" and inserts nothing; the service's normalizer
  fails with an \<open>Error\<close> of that message, which the synchronous adapter throws on as
  its own \<open>Error\<close>.
\<close>

theorem no_alternatives_handled:
  assumes "truthy (at0 (field ''channels'' (field ''results'' data)))"
    and "field ''alternatives'' (at0 (field ''channels'' (field ''results'' data)))
           \<in> {JUndefined, JNull, JArr []}"
  shows "formatDeepgramResponse data = Inl (Error ''No transcription alternatives found'')
     \<and> (env_truthy key \<longrightarrow>
          transcribeWithDeepgram key (\<lambda>c. Resolved data) audioBuffer options
            = Inl (Error ''Deepgram transcription failed: No transcription alternatives found''))
     \<and> (req_file req = Some f \<and> size_bytes f \<le> 2 ^ 30
          \<and> fileExt (originalname f) \<in> set allowedFormats \<and> env_truthy (DEEPGRAM_API_KEY w)
          \<and> provider w (listen_call w f) = Resolved data \<longrightarrow>
          transcribe_web w req
            = (\<lparr>status = 500,
                body = JObj [(''error'', JStr ''No transcription alternatives found'')]\<rparr>,
               [ProviderCall (listen_call w f)]))"
proof -
  let ?results = "field ''results'' data"
  let ?channels = "field ''channels'' ?results"
  have ch: "truthy ?channels" using assms(1) truthy_at0 by blast
  then have rs: "truthy ?results" using truthy_field by blast
  then have d: "\<not> nullish data" using truthy_field by blast
  have alt: "falsy (field ''alternatives'' (at0 ?channels))
      \<or> field ''length'' (field ''alternatives'' (at0 ?channels)) = JNum 0"
    using assms(2) by (auto simp: falsy_def)
  have fmt: "formatDeepgramResponse data = Inl (Error ''No transcription alternatives found'')"
    using d rs ch assms(1) alt
    by (simp add: formatDeepgramResponse_def get_prop_def falsy_def Let_def)
  have ar: "after_response w f ct t data
      = Inr (respond 500 (JObj [(''error'', JStr ''No transcription alternatives found'')]), [])"
    for w f ct t
    using d rs ch assms(1) alt
    by (simp add: after_response_def get_prop_def falsy_def Let_def)
  show ?thesis
    using fmt ar by (simp add: transcribeWithDeepgram_def transcribe_web_def respond_def)
qed

text \<open>An empty list, and a channel without the property.\<close>

theorem no_alternatives_handled_witness:
  "formatDeepgramResponse
      (JObj [(''results'', JObj [(''channels'', JArr [JObj [(''alternatives'', JArr [])]])])])
     = Inl (Error ''No transcription alternatives found'')
   \<and> transcribeWithDeepgram (Some ''dg-key'')
        (\<lambda>c. Resolved (JObj [(''results'', JObj [(''channels'', JArr [JObj []])])])) ''RIFF'' []
     = Inl (Error ''Deepgram transcription failed: No transcription alternatives found'')
   \<and> transcribe_web
        (sample_world\<lparr>provider := (\<lambda>c. Resolved
           (JObj [(''results'', JObj [(''channels'', JArr [JObj []])])]))\<rparr>)
        sample_request
     = (\<lparr>status = 500,
         body = JObj [(''error'', JStr ''No transcription alternatives found'')]\<rparr>,
        [ProviderCall (listen_call
           (sample_world\<lparr>provider := (\<lambda>c. Resolved
              (JObj [(''results'', JObj [(''channels'', JArr [JObj []])])]))\<rparr>)
           sample_file)])"
proof -
  let ?d1 = "JObj [(''results'', JObj [(''channels'', JArr [JObj [(''alternatives'', JArr [])]])])]"
  let ?d2 = "JObj [(''results'', JObj [(''channels'', JArr [JObj []])])]"
  let ?w = "sample_world\<lparr>provider := (\<lambda>c. Resolved ?d2)\<rparr>"
  have a1: "truthy (at0 (field ''channels'' (field ''results'' ?d1)))"
    and b1: "field ''alternatives'' (at0 (field ''channels'' (field ''results'' ?d1)))
           \<in> {JUndefined, JNull, JArr []}"
    and a2: "truthy (at0 (field ''channels'' (field ''results'' ?d2)))"
    and b2: "field ''alternatives'' (at0 (field ''channels'' (field ''results'' ?d2)))
           \<in> {JUndefined, JNull, JArr []}"
    by simp_all
  have acc: "req_file sample_request = Some sample_file \<and> size_bytes sample_file \<le> 2 ^ 30
      \<and> fileExt (originalname sample_file) \<in> set allowedFormats
      \<and> env_truthy (DEEPGRAM_API_KEY ?w)
      \<and> provider ?w (listen_call ?w sample_file) = Resolved ?d2"
    using sample_accepted by simp
  have k: "env_truthy (Some ''dg-key'')" by simp
  show ?thesis
    using no_alternatives_handled [OF a1 b1, THEN conjunct1]
      no_alternatives_handled [OF a2 b2, THEN conjunct2, THEN conjunct1, rule_format, OF k]
      no_alternatives_handled [OF a2 b2, THEN conjunct2, THEN conjunct2, rule_format, OF acc]
    by blast
qed



subsection \<open>The speech service\<close>

text \<open>
  C3, as claimed: a response without the transcript text makes the normalizer fail, and
  every other absent field defaults to \<open>null\<close> or an empty sequence. It does not fail:
  the normalizers copy the text, so an absent text is an \<open>undefined\<close> text in the
  result, an absent confidence is \<open>undefined\<close> too, and an absent language becomes the
  provider's default tag.
\<close>

theorem normalizer_text_absent_counterexample:
  "formatAssemblyAIResponse (JObj [(''id'', JStr ''job1''), (''status'', JStr ''completed'')])
     = Inr (JObj [(''text'', JUndefined), (''confidence'', JUndefined), (''words'', JArr []),
                  (''language'', JStr ''en''), (''duration'', JNull), (''utterances'', JArr []),
                  (''speaker_labels'', JNull), (''chapters'', JArr []), (''entities'', JArr [])])
   \<and> formatDeepgramResponse
        (JObj [(''results'', JObj [(''channels'',
           JArr [JObj [(''alternatives'', JArr [JObj [(''confidence'', JNum (19 / 20))]])]])])])
     = Inr (JObj [(''text'', JUndefined), (''confidence'', JNum (19 / 20)), (''words'', JArr []),
                  (''language'', JStr ''en-US''), (''duration'', JNull),
                  (''utterances'', JArr []), (''speaker_labels'', JNull)])"
  by (simp add: formatAssemblyAIResponse_def formatDeepgramResponse_def get_prop_def
      falsy_def js_or_def)

text \<open>
  C3, amended. On a response that is not \<open>null\<close> or \<open>undefined\<close>,
  \<open>formatAssemblyAIResponse\<close> does not fail; on a response with a first channel, a
  non-empty alternatives list and a first alternative that is not \<open>null\<close> or
  \<open>undefined\<close>, \<open>formatDeepgramResponse\<close> does not fail. The result's text and
  confidence are the response's (\<open>undefined\<close> when absent); absent words, utterances,
  chapters and entities become the empty sequence, an absent duration and absent speaker
  labels \<open>null\<close>, an absent language \<open>"en"\<close> (AssemblyAI) or \<open>"en-US"\<close> (Deepgram).
\<close>

theorem normalizer_absent_fields:
  "(\<not> nullish data \<longrightarrow>
      (\<exists>c. formatAssemblyAIResponse data = Inr c
         \<and> field ''text'' c = field ''text'' data
         \<and> field ''confidence'' c = field ''confidence'' data
         \<and> (field ''words'' data = JUndefined \<longrightarrow> field ''words'' c = JArr [])
         \<and> (field ''language_code'' data = JUndefined \<longrightarrow> field ''language'' c = JStr ''en'')
         \<and> (field ''audio_duration'' data = JUndefined \<longrightarrow> field ''duration'' c = JNull)
         \<and> (field ''utterances'' data = JUndefined \<longrightarrow> field ''utterances'' c = JArr [])
         \<and> (field ''speaker_labels'' data = JUndefined \<longrightarrow> field ''speaker_labels'' c = JNull)
         \<and> (field ''chapters'' data = JUndefined \<longrightarrow> field ''chapters'' c = JArr [])
         \<and> (field ''entities'' data = JUndefined \<longrightarrow> field ''entities'' c = JArr [])))
   \<and> (truthy (at0 (field ''channels'' (field ''results'' data)))
        \<and> alternatives = field ''alternatives'' (at0 (field ''channels'' (field ''results'' data)))
        \<and> truthy alternatives \<and> field ''length'' alternatives \<noteq> JNum 0
        \<and> best = at0 alternatives \<and> \<not> nullish best \<longrightarrow>
      (\<exists>c. formatDeepgramResponse data = Inr c
         \<and> field ''text'' c = field ''transcript'' best
         \<and> field ''confidence'' c = field ''confidence'' best
         \<and> (field ''words'' best = JUndefined \<longrightarrow> field ''words'' c = JArr [])
         \<and> (field ''language'' (field ''metadata'' data) = JUndefined
               \<longrightarrow> field ''language'' c = JStr ''en-US'')
         \<and> (field ''duration'' (field ''metadata'' data) = JUndefined
               \<longrightarrow> field ''duration'' c = JNull)
         \<and> (field ''paragraphs'' (field ''paragraphs'' best) = JUndefined
               \<longrightarrow> field ''utterances'' c = JArr [])
         \<and> (field ''speakers'' best = JUndefined \<longrightarrow> field ''speaker_labels'' c = JNull)))"
proof (intro conjI impI)
  assume "\<not> nullish data"
  then show "\<exists>c. formatAssemblyAIResponse data = Inr c
         \<and> field ''text'' c = field ''text'' data
         \<and> field ''confidence'' c = field ''confidence'' data
         \<and> (field ''words'' data = JUndefined \<longrightarrow> field ''words'' c = JArr [])
         \<and> (field ''language_code'' data = JUndefined \<longrightarrow> field ''language'' c = JStr ''en'')
         \<and> (field ''audio_duration'' data = JUndefined \<longrightarrow> field ''duration'' c = JNull)
         \<and> (field ''utterances'' data = JUndefined \<longrightarrow> field ''utterances'' c = JArr [])
         \<and> (field ''speaker_labels'' data = JUndefined \<longrightarrow> field ''speaker_labels'' c = JNull)
         \<and> (field ''chapters'' data = JUndefined \<longrightarrow> field ''chapters'' c = JArr [])
         \<and> (field ''entities'' data = JUndefined \<longrightarrow> field ''entities'' c = JArr [])"
    by (simp add: formatAssemblyAIResponse_def get_prop_def js_or_def)
next
  assume a: "truthy (at0 (field ''channels'' (field ''results'' data)))
        \<and> alternatives = field ''alternatives'' (at0 (field ''channels'' (field ''results'' data)))
        \<and> truthy alternatives \<and> field ''length'' alternatives \<noteq> JNum 0
        \<and> best = at0 alternatives \<and> \<not> nullish best"
  let ?results = "field ''results'' data"
  let ?channels = "field ''channels'' ?results"
  have c0: "truthy (at0 ?channels)" using a by blast
  then have ch: "truthy ?channels" using truthy_at0 by blast
  then have rs: "truthy ?results" using truthy_field by blast
  then have d: "\<not> nullish data" using truthy_field by blast
  have b: "best = at0 (field ''alternatives'' (at0 ?channels))" using a by blast
  have t1: "truthy (field ''alternatives'' (at0 ?channels))"
    and t2: "field ''length'' (field ''alternatives'' (at0 ?channels)) \<noteq> JNum 0"
    and t3: "\<not> nullish (at0 (field ''alternatives'' (at0 ?channels)))"
    using a by auto
  show "\<exists>c. formatDeepgramResponse data = Inr c
         \<and> field ''text'' c = field ''transcript'' best
         \<and> field ''confidence'' c = field ''confidence'' best
         \<and> (field ''words'' best = JUndefined \<longrightarrow> field ''words'' c = JArr [])
         \<and> (field ''language'' (field ''metadata'' data) = JUndefined
               \<longrightarrow> field ''language'' c = JStr ''en-US'')
         \<and> (field ''duration'' (field ''metadata'' data) = JUndefined
               \<longrightarrow> field ''duration'' c = JNull)
         \<and> (field ''paragraphs'' (field ''paragraphs'' best) = JUndefined
               \<longrightarrow> field ''utterances'' c = JArr [])
         \<and> (field ''speakers'' best = JUndefined \<longrightarrow> field ''speaker_labels'' c = JNull)"
    unfolding b using c0 ch rs d t1 t2 t3
    by (simp add: formatDeepgramResponse_def get_prop_def falsy_def js_or_def Let_def)
qed

theorem normalizer_absent_fields_witness:
  "(\<exists>c. formatAssemblyAIResponse (JObj [(''status'', JStr ''completed'')]) = Inr c
        \<and> field ''text'' c = JUndefined \<and> field ''confidence'' c = JUndefined
        \<and> field ''words'' c = JArr [] \<and> field ''language'' c = JStr ''en''
        \<and> field ''duration'' c = JNull)
   \<and> (\<exists>c. formatDeepgramResponse
          (JObj [(''results'', JObj [(''channels'',
             JArr [JObj [(''alternatives'', JArr [JObj [(''confidence'', JNum (19 / 20))]])]])])])
          = Inr c
        \<and> field ''text'' c = JUndefined \<and> field ''confidence'' c = JNum (19 / 20)
        \<and> field ''words'' c = JArr [] \<and> field ''language'' c = JStr ''en-US''
        \<and> field ''speaker_labels'' c = JNull)"
proof -
  let ?a = "JObj [(''status'', JStr ''completed'')]"
  let ?alts = "JArr [JObj [(''confidence'', JNum (19 / 20))]]"
  let ?d = "JObj [(''results'', JObj [(''channels'', JArr [JObj [(''alternatives'', ?alts)]])])]"
  have h1: "\<not> nullish ?a" by simp
  have h2: "truthy (at0 (field ''channels'' (field ''results'' ?d)))
        \<and> ?alts = field ''alternatives'' (at0 (field ''channels'' (field ''results'' ?d)))
        \<and> truthy ?alts \<and> field ''length'' ?alts \<noteq> JNum 0
        \<and> JObj [(''confidence'', JNum (19 / 20))] = at0 ?alts
        \<and> \<not> nullish (JObj [(''confidence'', JNum (19 / 20))])"
    by simp
  note w1 = normalizer_absent_fields [of ?a, THEN conjunct1, rule_format, OF h1]
  note w2 = normalizer_absent_fields [where data = ?d and alternatives = ?alts
          and best = "JObj [(''confidence'', JNum (19 / 20))]",
        THEN conjunct2, rule_format, OF h2]
  from w1 obtain c1 where "formatAssemblyAIResponse ?a = Inr c1"
    and "field ''text'' c1 = JUndefined" and "field ''confidence'' c1 = JUndefined"
    and "field ''words'' c1 = JArr []" and "field ''language'' c1 = JStr ''en''"
    and "field ''duration'' c1 = JNull"
    by auto
  moreover from w2 obtain c2 where "formatDeepgramResponse ?d = Inr c2"
    and "field ''text'' c2 = JUndefined" and "field ''confidence'' c2 = JNum (19 / 20)"
    and "field ''words'' c2 = JArr []" and "field ''language'' c2 = JStr ''en-US''"
    and "field ''speaker_labels'' c2 = JNull"
    by auto
  ultimately show ?thesis by blast
qed





text \<open>The loop has no bound of its own: it returns only if some poll is not pending.\<close>

lemma poll_loop_Some_terminal:
  assumes "poll_loop num poll k wt = Some y"
  shows "\<exists>j. \<not> pending (poll j)"
proof (rule poll_loop.raw_induct
    [where P = "\<lambda>num poll k wt y. \<exists>j. \<not> pending (poll j)", OF _ assms], goal_cases)
  case (1 loop num poll k wt y)
  show ?case
  proof (cases "pending (poll k)")
    case False
    then show ?thesis by blast
  next
    case True
    then obtain d where "poll k = Resolved d" and "\<not> nullish d"
      and "field ''status'' d \<noteq> JStr ''completed''" and "field ''status'' d \<noteq> JStr ''error''"
      by (auto simp: pending_def split: axios_outcome.splits)
    with 1(2) have "loop num poll (Suc k) (wt + 1000) = Some y"
      by (simp add: get_prop_def)
    with 1(1) show ?thesis by blast
  qed
qed

lemma poll_loop_diverges:
  "(\<forall>j. pending (poll j)) \<Longrightarrow> poll_loop num poll k wt = None"
  using poll_loop_Some_terminal[of num poll k wt] by (cases "poll_loop num poll k wt") auto



end
